theory Spec2Isabelle
  imports Complex_Main
begin

section \<open>JavaScript values used by the server\<close>

text \<open>
  The choice-filling server (\<^verbatim>\<open>src/index.ts\<close>) keeps a seat matrix, a cutoff table and a
  course whitelist, and \<^verbatim>\<open>generateSelectionPayload\<close> ranks the seats. This theory embeds
  the handlers and the ranking function and proves the properties stated for them.

  A JavaScript number is \<open>NaN\<close>, an infinity or a finite value. Finite values are kept
  exact (rationals): rounding to binary64 is monotone, so the order of cutoffs, which is
  all the ranking uses, is the order of the exact values. Both zeros are \<open>Fin 0\<close>.
\<close>

datatype jsnum = NaN | NegInf | Fin rat | PosInf

text \<open>
  A field of a parsed JSON record, as the interfaces declare it (\<^verbatim>\<open>string | number\<close>),
  or absent. A JSON number is finite.
\<close>

datatype jsval = JUndefined | JNumber rat | JString string

datatype category = OC | BC | BCM | MBC | SC | SCA | ST

subsection \<open>Number operations\<close>

text \<open>\<^verbatim>\<open>a - b\<close> on numbers.\<close>

fun js_sub :: "jsnum \<Rightarrow> jsnum \<Rightarrow> jsnum" where
  "js_sub NaN _ = NaN"
| "js_sub _ NaN = NaN"
| "js_sub (Fin a) (Fin b) = Fin (a - b)"
| "js_sub (Fin _) PosInf = NegInf"
| "js_sub (Fin _) NegInf = PosInf"
| "js_sub PosInf PosInf = NaN"
| "js_sub PosInf _ = PosInf"
| "js_sub NegInf NegInf = NaN"
| "js_sub NegInf _ = NegInf"

text \<open>\<^verbatim>\<open>a > b\<close> on numbers: false as soon as one side is \<open>NaN\<close>.\<close>

fun js_gt :: "jsnum \<Rightarrow> jsnum \<Rightarrow> bool" where
  "js_gt NaN _ = False"
| "js_gt _ NaN = False"
| "js_gt (Fin a) (Fin b) = (b < a)"
| "js_gt PosInf PosInf = False"
| "js_gt PosInf _ = True"
| "js_gt _ PosInf = False"
| "js_gt NegInf _ = False"
| "js_gt (Fin _) NegInf = True"

text \<open>\<^verbatim>\<open>a >= b\<close> on numbers.\<close>

fun js_ge :: "jsnum \<Rightarrow> jsnum \<Rightarrow> bool" where
  "js_ge NaN _ = False"
| "js_ge _ NaN = False"
| "js_ge a b = (\<not> js_gt b a)"

text \<open>Unary minus, \<^verbatim>\<open>isNaN\<close>, and the truth value of a number (\<open>0\<close> and \<open>NaN\<close> are falsy).\<close>

fun js_neg :: "jsnum \<Rightarrow> jsnum" where
  "js_neg NaN = NaN"
| "js_neg NegInf = PosInf"
| "js_neg (Fin a) = Fin (- a)"
| "js_neg PosInf = NegInf"

fun isNaN :: "jsnum \<Rightarrow> bool" where
  "isNaN NaN = True"
| "isNaN _ = False"

fun truthy :: "jsnum \<Rightarrow> bool" where
  "truthy NaN = False"
| "truthy (Fin a) = (a \<noteq> 0)"
| "truthy _ = True"

text \<open>\<^verbatim>\<open>a || b\<close> on numbers: \<open>a\<close> when it is truthy, otherwise \<open>b\<close>.\<close>

definition js_or :: "jsnum \<Rightarrow> jsnum \<Rightarrow> jsnum" where
  "js_or a b = (if truthy a then a else b)"

subsection \<open>Strings\<close>

text \<open>
  Strings are byte strings, and \<^verbatim>\<open>toLowerCase\<close> lowers the ASCII letters \<^verbatim>\<open>A\<close> to \<^verbatim>\<open>Z\<close>
  only: on a name or district with a letter outside ASCII the JavaScript function, which
  follows Unicode, may differ. The properties below are stated through \<open>normalize\<close> and
  \<open>str_includes\<close> themselves and hold for any lowering function.
\<close>

definition lower_char :: "char \<Rightarrow> char" where
  "lower_char c =
     (if 65 \<le> (of_char c :: nat) \<and> (of_char c :: nat) \<le> 90
      then char_of ((of_char c :: nat) + 32) else c)"

definition toLowerCase :: "string \<Rightarrow> string" where
  "toLowerCase s = map lower_char s"

fun startsWith :: "string \<Rightarrow> string \<Rightarrow> bool" where
  "startsWith _ [] = True"
| "startsWith [] (n # ns) = False"
| "startsWith (c # cs) (n # ns) = (c = n \<and> startsWith cs ns)"

text \<open>\<^verbatim>\<open>hay.includes(needle)\<close>: the needle occurs as a contiguous substring.\<close>

fun str_includes :: "string \<Rightarrow> string \<Rightarrow> bool" where
  "str_includes [] needle = (needle = [])"
| "str_includes (c # cs) needle = (startsWith (c # cs) needle \<or> str_includes cs needle)"

text \<open>
  \<^verbatim>\<open>String(n)\<close> for a college code \<open>n\<close>, taken to be an integer: its decimal digits. This
  is what JavaScript writes for an integer of magnitude below \<open>10^21\<close>; from there on it
  writes exponent notation, which is outside this model, as is a code with a fraction.
\<close>

fun nat_digits :: "nat \<Rightarrow> string" where
  "nat_digits n =
     (if n < 10 then [char_of (48 + n)]
      else nat_digits (n div 10) @ [char_of (48 + n mod 10)])"

declare nat_digits.simps [simp del]

definition String_int :: "int \<Rightarrow> string" where
  "String_int i = (if i < 0 then CHR ''-'' # nat_digits (nat (- i)) else nat_digits (nat i))"

subsection \<open>\<^verbatim>\<open>parseFloat\<close>\<close>

text \<open>
  \<^verbatim>\<open>parseFloat\<close> skips leading white space (here the ASCII white space) and reads the
  longest prefix that is a decimal literal: an optional sign, then \<^verbatim>\<open>Infinity\<close> or digits
  with an optional fraction and an optional exponent. With no such prefix the result is
  \<open>NaN\<close>. The value is the exact one of the literal: JavaScript rounds it to binary64,
  so that a huge literal becomes an infinity, a tiny one \<open>0\<close>, and two literals that
  differ beyond the 17th digit the same number. The model agrees with JavaScript on which
  texts parse at all, and on the value of every literal that binary64 holds exactly.
\<close>

definition is_digit :: "char \<Rightarrow> bool" where
  "is_digit c = (48 \<le> (of_char c :: nat) \<and> (of_char c :: nat) \<le> 57)"

definition is_space :: "char \<Rightarrow> bool" where
  "is_space c = ((of_char c :: nat) = 32 \<or> (9 \<le> (of_char c :: nat) \<and> (of_char c :: nat) \<le> 13))"

definition digits_val :: "string \<Rightarrow> nat" where
  "digits_val ds = foldl (\<lambda>a c. 10 * a + ((of_char c :: nat) - 48)) 0 ds"

text \<open>The exponent part at the head of the rest, \<open>0\<close> when there is none.\<close>

definition exponent_digits :: "string \<Rightarrow> int" where
  "exponent_digits s =
     (let ds = takeWhile is_digit s in if ds = [] then 0 else int (digits_val ds))"

fun parse_exponent :: "string \<Rightarrow> int" where
  "parse_exponent [] = 0"
| "parse_exponent (c # rest) =
     (if c = CHR ''e'' \<or> c = CHR ''E'' then
        (case rest of
           [] \<Rightarrow> 0
         | s # r \<Rightarrow>
             if s = CHR ''-'' then - exponent_digits r
             else if s = CHR ''+'' then exponent_digits r
             else exponent_digits rest)
      else 0)"

definition scale10 :: "rat \<Rightarrow> int \<Rightarrow> rat" where
  "scale10 m e = (if 0 \<le> e then m * 10 ^ nat e else m / 10 ^ nat (- e))"

definition parse_unsigned :: "string \<Rightarrow> jsnum" where
  "parse_unsigned s =
     (if startsWith s ''Infinity'' then PosInf
      else
        let ip = takeWhile is_digit s;
            r1 = dropWhile is_digit s;
            fp = (case r1 of [] \<Rightarrow> [] | d # t \<Rightarrow> if d = CHR ''.'' then takeWhile is_digit t else []);
            r2 = (case r1 of [] \<Rightarrow> [] | d # t \<Rightarrow> if d = CHR ''.'' then dropWhile is_digit t else r1)
        in if ip = [] \<and> fp = [] then NaN
           else Fin (scale10 (of_nat (digits_val (ip @ fp)) / 10 ^ length fp) (parse_exponent r2)))"

definition parseFloat :: "string \<Rightarrow> jsnum" where
  "parseFloat s =
     (case dropWhile is_space s of
        [] \<Rightarrow> NaN
      | c # r \<Rightarrow>
          if c = CHR ''-'' then js_neg (parse_unsigned r)
          else if c = CHR ''+'' then parse_unsigned r
          else parse_unsigned (c # r))"

text \<open>
  \<^verbatim>\<open>parseFloat(String(v))\<close> for a field \<open>v\<close>. For a number \<open>x\<close>, \<^verbatim>\<open>String(x)\<close> is a decimal
  literal that reads back as \<open>x\<close>; an absent field becomes the text \<^verbatim>\<open>undefined\<close>.
\<close>

fun parseFloatString :: "jsval \<Rightarrow> jsnum" where
  "parseFloatString (JNumber x) = Fin x"
| "parseFloatString (JString s) = parseFloat s"
| "parseFloatString JUndefined = parseFloat ''undefined''"

section \<open>Records of the server\<close>

text \<open>
  \<^verbatim>\<open>SeatData\<close>, \<^verbatim>\<open>CutoffData\<close>, \<^verbatim>\<open>Course\<close> and \<^verbatim>\<open>ValidSelection\<close>, with the fields the
  ranking reads. \<open>seat_id\<close> is the source's \<^verbatim>\<open>_id\<close>, \<open>sel_id\<close> its \<^verbatim>\<open>id\<close>; the per-category
  fields carry a prefix because both interfaces name them \<^verbatim>\<open>OC\<close> ... \<^verbatim>\<open>ST\<close>.
\<close>

record SeatData =
  seat_id :: string
  colCode :: string
  colName :: string
  branCode :: string
  branName :: string
  seat_OC :: jsval
  seat_BC :: jsval
  seat_BCM :: jsval
  seat_MBC :: jsval
  seat_SC :: jsval
  seat_SCA :: jsval
  seat_ST :: jsval

record CutoffData =
  coc :: int
  brc :: string
  cut_OC :: jsval
  cut_BC :: jsval
  cut_BCM :: jsval
  cut_MBC :: jsval
  cut_SC :: jsval
  cut_SCA :: jsval
  cut_ST :: jsval

record Course =
  course_branCode :: string
  course_branName :: string

record ValidSelection =
  sel_id :: string
  college :: string
  branch :: string
  cutoff :: jsnum

record Reference =
  ref_college :: string
  ref_branch :: string
  ref_cutoff :: jsnum

record Payload =
  selections :: "string list"
  reference :: "Reference list"

text \<open>The instance state of \<^verbatim>\<open>TNEAMCPServer\<close>.\<close>

record server_state =
  sessionId :: "string option"
  seatMatrix :: "SeatData list"
  cutoffData :: "CutoffData list"
  preferredCourses :: "Course list"

text \<open>\<^verbatim>\<open>seat[category]\<close> and \<^verbatim>\<open>matchingCutoff[category]\<close>.\<close>

fun seat_field :: "category \<Rightarrow> SeatData \<Rightarrow> jsval" where
  "seat_field OC s = seat_OC s"
| "seat_field BC s = seat_BC s"
| "seat_field BCM s = seat_BCM s"
| "seat_field MBC s = seat_MBC s"
| "seat_field SC s = seat_SC s"
| "seat_field SCA s = seat_SCA s"
| "seat_field ST s = seat_ST s"

fun cutoff_field :: "category \<Rightarrow> CutoffData \<Rightarrow> jsval" where
  "cutoff_field OC c = cut_OC c"
| "cutoff_field BC c = cut_BC c"
| "cutoff_field BCM c = cut_BCM c"
| "cutoff_field MBC c = cut_MBC c"
| "cutoff_field SC c = cut_SC c"
| "cutoff_field SCA c = cut_SCA c"
| "cutoff_field ST c = cut_ST c"

section \<open>The ranking: \<^verbatim>\<open>generateSelectionPayload\<close>\<close>

text \<open>
  The seat passes \<^verbatim>\<open>typeof categorySeats !== 'number' || categorySeats <= 0\<close> when the value
  is a number and not \<open>\<le> 0\<close>.
\<close>

fun seats_available :: "jsval \<Rightarrow> bool" where
  "seats_available (JNumber n) = (\<not> n \<le> 0)"
| "seats_available _ = False"

text \<open>The two predicates handed to \<^verbatim>\<open>cutoffData.find\<close>.\<close>

definition exact_match :: "SeatData \<Rightarrow> CutoffData \<Rightarrow> bool" where
  "exact_match seat c = (String_int (coc c) = colCode seat \<and> brc c = branCode seat)"

definition cs_match :: "SeatData \<Rightarrow> CutoffData \<Rightarrow> bool" where
  "cs_match seat c = (String_int (coc c) = colCode seat \<and> brc c = ''CS'')"

text \<open>\<^verbatim>\<open>matchingCutoff\<close>: the exact match, or else the \<^verbatim>\<open>CS\<close> record of the same college.\<close>

definition matchingCutoff :: "CutoffData list \<Rightarrow> SeatData \<Rightarrow> CutoffData option" where
  "matchingCutoff cd seat =
     (case List.find (exact_match seat) cd of
        Some c \<Rightarrow> Some c
      | None \<Rightarrow> List.find (cs_match seat) cd)"

text \<open>\<^verbatim>\<open>cutoffScore\<close>: the category's value, or else (\<^verbatim>\<open>||\<close>) the value at \<^verbatim>\<open>OC\<close>.\<close>

definition cutoffScore :: "category \<Rightarrow> CutoffData \<Rightarrow> jsnum" where
  "cutoffScore cat m =
     js_or (parseFloatString (cutoff_field cat m)) (parseFloatString (cut_OC m))"

text \<open>The variables the first loop updates.\<close>

record loop_state =
  validSelections :: "ValidSelection list"
  unMatched :: nat
  withoutCutoff :: "string list"

definition loop_init :: loop_state where
  "loop_init = \<lparr>validSelections = [], unMatched = 0, withoutCutoff = []\<rparr>"

text \<open>One iteration of \<^verbatim>\<open>for (const seat of this.seatMatrix)\<close>.\<close>

definition process_seat ::
  "Course list \<Rightarrow> CutoffData list \<Rightarrow> category \<Rightarrow> loop_state \<Rightarrow> SeatData \<Rightarrow> loop_state" where
  "process_seat courses cd cat ls seat =
     (if branCode seat \<notin> set (map course_branCode courses) then ls
      else if \<not> seats_available (seat_field cat seat) then ls
      else
        (case matchingCutoff cd seat of
           Some m \<Rightarrow>
             (let score = cutoffScore cat m in
              if isNaN score then
                (if colName seat \<in> set (withoutCutoff ls) then ls
                 else ls\<lparr>withoutCutoff := withoutCutoff ls @ [colName seat]\<rparr>)
              else
                ls\<lparr>validSelections := validSelections ls @
                      [\<lparr>sel_id = seat_id seat, college = colName seat,
                        branch = branName seat, cutoff = score\<rparr>]\<rparr>)
         | None \<Rightarrow> ls\<lparr>unMatched := unMatched ls + 1\<rparr>))"

definition seat_loop :: "server_state \<Rightarrow> category \<Rightarrow> loop_state" where
  "seat_loop st cat =
     foldl (process_seat (preferredCourses st) (cutoffData st) cat) loop_init (seatMatrix st)"

text \<open>
  \<^verbatim>\<open>validSelections.sort((a, b) => b.cutoff - a.cutoff)\<close>. \<^verbatim>\<open>Array.prototype.sort\<close> is
  stable; an element is moved behind another only when the comparator is positive
  (a \<open>NaN\<close> result counts as \<open>0\<close>). Insertion from the right computes that order.
\<close>

definition compareCutoff :: "ValidSelection \<Rightarrow> ValidSelection \<Rightarrow> jsnum" where
  "compareCutoff a b = js_sub (cutoff b) (cutoff a)"

fun sort_insert :: "('a \<Rightarrow> 'a \<Rightarrow> jsnum) \<Rightarrow> 'a \<Rightarrow> 'a list \<Rightarrow> 'a list" where
  "sort_insert cmp x [] = [x]"
| "sort_insert cmp x (y # ys) =
     (if js_gt (cmp x y) (Fin 0) then y # sort_insert cmp x ys else x # y # ys)"

definition js_sort :: "('a \<Rightarrow> 'a \<Rightarrow> jsnum) \<Rightarrow> 'a list \<Rightarrow> 'a list" where
  "js_sort cmp xs = foldr (sort_insert cmp) xs []"

definition sorted_selections :: "server_state \<Rightarrow> category \<Rightarrow> ValidSelection list" where
  "sorted_selections st cat = js_sort compareCutoff (validSelections (seat_loop st cat))"

text \<open>\<^verbatim>\<open>normalize\<close> and the test \<^verbatim>\<open>dists.some(dist => normalize(name).includes(normalize(dist)))\<close>.\<close>

definition normalize :: "string \<Rightarrow> string" where
  "normalize str = toLowerCase str"

definition some_district :: "string list \<Rightarrow> string \<Rightarrow> bool" where
  "some_district dists name = list_ex (\<lambda>dist. str_includes (normalize name) (normalize dist)) dists"

definition filteredByDistrict ::
  "server_state \<Rightarrow> string list \<Rightarrow> category \<Rightarrow> ValidSelection list" where
  "filteredByDistrict st districtChoices cat =
     filter (\<lambda>item. some_district districtChoices (college item)) (sorted_selections st cat)"

text \<open>
  The second loop pushes each item to \<^verbatim>\<open>topPreferredHighCutoff\<close> or to \<^verbatim>\<open>others\<close>; the
  pair holds the two arrays.
\<close>

definition partition_step ::
  "string list \<Rightarrow> rat \<Rightarrow> ValidSelection list \<times> ValidSelection list \<Rightarrow> ValidSelection
     \<Rightarrow> ValidSelection list \<times> ValidSelection list" where
  "partition_step topPrefDist minCutoff acc item =
     (let isTopDist = some_district topPrefDist (college item) in
      if isTopDist \<and> js_gt (cutoff item) (Fin minCutoff)
      then (fst acc @ [item], snd acc)
      else (fst acc, snd acc @ [item]))"

definition partition_loop ::
  "string list \<Rightarrow> rat \<Rightarrow> ValidSelection list \<Rightarrow> ValidSelection list \<times> ValidSelection list" where
  "partition_loop topPrefDist minCutoff items =
     foldl (partition_step topPrefDist minCutoff) ([], []) items"

definition topPreferredHighCutoff ::
  "server_state \<Rightarrow> string list \<Rightarrow> string list \<Rightarrow> rat \<Rightarrow> category \<Rightarrow> ValidSelection list" where
  "topPreferredHighCutoff st districtChoices topPrefDist minCutoff cat =
     fst (partition_loop topPrefDist minCutoff (filteredByDistrict st districtChoices cat))"

definition others ::
  "server_state \<Rightarrow> string list \<Rightarrow> string list \<Rightarrow> rat \<Rightarrow> category \<Rightarrow> ValidSelection list" where
  "others st districtChoices topPrefDist minCutoff cat =
     snd (partition_loop topPrefDist minCutoff (filteredByDistrict st districtChoices cat))"

definition finalSorted ::
  "server_state \<Rightarrow> string list \<Rightarrow> string list \<Rightarrow> rat \<Rightarrow> category \<Rightarrow> ValidSelection list" where
  "finalSorted st districtChoices topPrefDist minCutoff cat =
     topPreferredHighCutoff st districtChoices topPrefDist minCutoff cat
       @ others st districtChoices topPrefDist minCutoff cat"

definition reference_of :: "ValidSelection \<Rightarrow> Reference" where
  "reference_of item =
     \<lparr>ref_college = college item, ref_branch = branch item, ref_cutoff = cutoff item\<rparr>"

definition generateSelectionPayload ::
  "server_state \<Rightarrow> string list \<Rightarrow> string list \<Rightarrow> rat \<Rightarrow> category \<Rightarrow> Payload" where
  "generateSelectionPayload st districtChoices topPrefDist minCutoff cat =
     (let final = finalSorted st districtChoices topPrefDist minCutoff cat in
      \<lparr>selections = map sel_id final, reference = map reference_of final\<rparr>)"

section \<open>Notions used to state the properties\<close>

text \<open>
  What one iteration of the first loop appends to \<^verbatim>\<open>validSelections\<close> for a seat, if
  anything (\<open>validSelections_process_seat\<close> below shows that it is).
\<close>

definition pushed ::
  "Course list \<Rightarrow> CutoffData list \<Rightarrow> category \<Rightarrow> SeatData \<Rightarrow> ValidSelection option" where
  "pushed courses cd cat seat =
     (if branCode seat \<in> set (map course_branCode courses) \<and> seats_available (seat_field cat seat)
      then
        (case matchingCutoff cd seat of
           None \<Rightarrow> None
         | Some m \<Rightarrow>
             if isNaN (cutoffScore cat m) then None
             else Some \<lparr>sel_id = seat_id seat, college = colName seat,
                        branch = branName seat, cutoff = cutoffScore cat m\<rparr>)
      else None)"

text \<open>
  Group A: the college name matches a top district and the cutoff is above the threshold.
  Group B is everything else that passed the district filter.
\<close>

definition group_A :: "string list \<Rightarrow> rat \<Rightarrow> string \<Rightarrow> jsnum \<Rightarrow> bool" where
  "group_A topPrefDist minCutoff name score =
     (some_district topPrefDist name \<and> js_gt score (Fin minCutoff))"

section \<open>The tool handlers\<close>

text \<open>
  A handler takes the instance state and returns the state it leaves together with what
  it returns or throws (\<open>Inl\<close> is the thrown \<^verbatim>\<open>Error\<close>). The text a handler returns is
  kept as the data it is formatted from. What the portal or the file system answers is an
  argument of the handler: \<open>None\<close> when the awaited call throws.
\<close>

datatype error_code = InvalidParams | MethodNotFound | InternalError

datatype error = Error string | McpError error_code string

text \<open>
  The \<^verbatim>\<open>message\<close> of a thrown error. \<^verbatim>\<open>McpError\<close> comes from the protocol library, which
  builds its message as \<^verbatim>\<open>MCP error <code>: <text>\<close> with the JSON-RPC number of the code.
\<close>

fun error_code_text :: "error_code \<Rightarrow> string" where
  "error_code_text InvalidParams = ''-32602''"
| "error_code_text MethodNotFound = ''-32601''"
| "error_code_text InternalError = ''-32603''"

fun error_message :: "error \<Rightarrow> string" where
  "error_message (Error msg) = msg"
| "error_message (McpError code msg) = ''MCP error '' @ error_code_text code @ '': '' @ msg"

record GenerateResponse =
  generated :: nat
  top10 :: "Reference list"
  and_more :: "nat option"

datatype reply =
    LoginOk string string
  | LoginFailed
  | SeatsFetched nat
  | SeatsFailed
  | CutoffLoaded nat
  | CutoffFailed
  | CoursesLoaded nat
  | CoursesFailed
  | Generated GenerateResponse
  | Submitted nat
  | SubmitFailed
  | SessionStatus bool nat nat nat

text \<open>
  \<^verbatim>\<open>args.districtChoices\<close> as the guard sees it: absent (or another falsy value), a value
  that is not an array, or an array.
\<close>

datatype array_arg = ArgMissing | ArgNotArray | ArgArray "string list"

record GenerateChoicesArgs =
  arg_districtChoices :: array_arg
  arg_topPrefDist :: "string list option"
  arg_minCutoff :: "rat option"
  arg_category :: "category option"

record LoginResponse =
  login_sessionId :: "string option"
  login_name :: string

definition handleLogin ::
  "server_state \<Rightarrow> LoginResponse option \<Rightarrow> (error + reply) \<times> server_state" where
  "handleLogin st response =
     (case response of
        None \<Rightarrow> (Inr LoginFailed, st)
      | Some data \<Rightarrow>
          (case login_sessionId data of
             None \<Rightarrow> (Inr LoginFailed, st)
           | Some sid \<Rightarrow>
               if sid \<noteq> [] then (Inr (LoginOk (login_name data) sid), st\<lparr>sessionId := Some sid\<rparr>)
               else (Inr LoginFailed, st)))"

text \<open>
  The seat matrix is assigned as soon as the response is parsed; writing the copy to
  \<^verbatim>\<open>available_seats.json\<close> comes after and may still fail (the flag).
\<close>

definition handleGetAvailableSeats ::
  "server_state \<Rightarrow> (SeatData list \<times> bool) option \<Rightarrow> (error + reply) \<times> server_state" where
  "handleGetAvailableSeats st response =
     (if sessionId st = None \<or> sessionId st = Some [] then
        (Inl (Error ''Not logged in. Please login first.''), st)
      else
        (case response of
           None \<Rightarrow> (Inr SeatsFailed, st)
         | Some (data, written) \<Rightarrow>
             (if written then (Inr (SeatsFetched (length data)), st\<lparr>seatMatrix := data\<rparr>)
              else (Inr SeatsFailed, st\<lparr>seatMatrix := data\<rparr>))))"

definition handleLoadCutoffData ::
  "server_state \<Rightarrow> CutoffData list option \<Rightarrow> (error + reply) \<times> server_state" where
  "handleLoadCutoffData st file =
     (case file of
        None \<Rightarrow> (Inr CutoffFailed, st)
      | Some data \<Rightarrow> (Inr (CutoffLoaded (length data)), st\<lparr>cutoffData := data\<rparr>))"

definition handleLoadCoursePreferences ::
  "server_state \<Rightarrow> Course list option \<Rightarrow> (error + reply) \<times> server_state" where
  "handleLoadCoursePreferences st file =
     (case file of
        None \<Rightarrow> (Inr CoursesFailed, st)
      | Some data \<Rightarrow> (Inr (CoursesLoaded (length data)), st\<lparr>preferredCourses := data\<rparr>))"

definition handleGenerateChoices ::
  "server_state \<Rightarrow> GenerateChoicesArgs \<Rightarrow> (error + reply) \<times> server_state" where
  "handleGenerateChoices st args =
     (if length (seatMatrix st) = 0 then
        (Inl (Error ''Seat matrix not loaded. Please fetch available seats first.''), st)
      else if length (cutoffData st) = 0 then
        (Inl (Error ''Cutoff data not loaded. Please load cutoff data first.''), st)
      else if length (preferredCourses st) = 0 then
        (Inl (Error ''Course preferences not loaded. Please load course preferences first.''), st)
      else
        (case arg_districtChoices args of
           ArgMissing \<Rightarrow> (Inl (Error ''districtChoices is required and must be an array''), st)
         | ArgNotArray \<Rightarrow> (Inl (Error ''districtChoices is required and must be an array''), st)
         | ArgArray districtChoices \<Rightarrow>
             (let topPrefDist = (case arg_topPrefDist args of None \<Rightarrow> [] | Some t \<Rightarrow> t);
                  minCutoff = (case arg_minCutoff args of None \<Rightarrow> 85 | Some m \<Rightarrow> m);
                  cat = (case arg_category args of None \<Rightarrow> MBC | Some c \<Rightarrow> c);
                  result = generateSelectionPayload st districtChoices topPrefDist minCutoff cat;
                  n = length (selections result)
              in (Inr (Generated
                    \<lparr>generated = n, top10 = take 10 (reference result),
                     and_more = (if n > 10 then Some (n - 10) else None)\<rparr>), st))))"

definition handleSubmitChoices ::
  "server_state \<Rightarrow> string list \<Rightarrow> bool \<Rightarrow> (error + reply) \<times> server_state" where
  "handleSubmitChoices st sels answered =
     (if sessionId st = None \<or> sessionId st = Some [] then
        (Inl (Error ''Not logged in. Please login first.''), st)
      else if answered then (Inr (Submitted (length sels)), st)
      else (Inr SubmitFailed, st))"

definition handleGetSessionStatus :: "server_state \<Rightarrow> (error + reply) \<times> server_state" where
  "handleGetSessionStatus st =
     (Inr (SessionStatus (\<not> (sessionId st = None \<or> sessionId st = Some []))
             (length (seatMatrix st)) (length (cutoffData st)) (length (preferredCourses st))), st)"

text \<open>
  A tool call as the request handler receives it: the tool's name with its arguments
  (\<open>None\<close> when they fail the handler's check), and the environment's answer.
\<close>

datatype tool_call =
    login "(string \<times> string) option" "LoginResponse option"
  | get_available_seats "(SeatData list \<times> bool) option"
  | load_cutoff_data "CutoffData list option"
  | load_course_preferences "Course list option"
  | generate_choices "GenerateChoicesArgs option"
  | submit_choices "string list option" bool
  | get_session_status
  | unknown_tool string

fun tool_name :: "tool_call \<Rightarrow> string" where
  "tool_name (login _ _) = ''login''"
| "tool_name (get_available_seats _) = ''get_available_seats''"
| "tool_name (load_cutoff_data _) = ''load_cutoff_data''"
| "tool_name (load_course_preferences _) = ''load_course_preferences''"
| "tool_name (generate_choices _) = ''generate_choices''"
| "tool_name (submit_choices _ _) = ''submit_choices''"
| "tool_name get_session_status = ''get_session_status''"
| "tool_name (unknown_tool name) = name"

text \<open>The \<^verbatim>\<open>switch\<close> of the request handler.\<close>

fun dispatch :: "server_state \<Rightarrow> tool_call \<Rightarrow> (error + reply) \<times> server_state" where
  "dispatch st (login None _) =
     (Inl (McpError InvalidParams ''Login requires email and password''), st)"
| "dispatch st (login (Some _) response) = handleLogin st response"
| "dispatch st (get_available_seats response) = handleGetAvailableSeats st response"
| "dispatch st (load_cutoff_data file) = handleLoadCutoffData st file"
| "dispatch st (load_course_preferences file) = handleLoadCoursePreferences st file"
| "dispatch st (generate_choices None) =
     (Inl (McpError InvalidParams ''Generate choices requires parameters''), st)"
| "dispatch st (generate_choices (Some args)) = handleGenerateChoices st args"
| "dispatch st (submit_choices None _) =
     (Inl (McpError InvalidParams ''Submit choices requires selections array''), st)"
| "dispatch st (submit_choices (Some sels) answered) = handleSubmitChoices st sels answered"
| "dispatch st get_session_status = handleGetSessionStatus st"
| "dispatch st (unknown_tool name) =
     (Inl (McpError MethodNotFound (''Unknown tool: '' @ name)), st)"

text \<open>
  The \<^verbatim>\<open>try\<close> around the switch: whatever is thrown leaves the request handler as an
  internal \<^verbatim>\<open>McpError\<close> that names the tool.
\<close>

definition callTool :: "server_state \<Rightarrow> tool_call \<Rightarrow> (error + reply) \<times> server_state" where
  "callTool st call =
     (case dispatch st call of
        (Inl e, st') \<Rightarrow>
          (Inl (McpError InternalError
                  (''Error executing tool '' @ tool_name call @ '': '' @ error_message e)), st')
      | (Inr r, st') \<Rightarrow> (Inr r, st'))"

text \<open>The tools that fetch from the portal or load a file.\<close>

fun is_fetch_or_load :: "tool_call \<Rightarrow> bool" where
  "is_fetch_or_load (get_available_seats _) = True"
| "is_fetch_or_load (load_cutoff_data _) = True"
| "is_fetch_or_load (load_course_preferences _) = True"
| "is_fetch_or_load _ = False"

fun is_login :: "tool_call \<Rightarrow> bool" where
  "is_login (login _ _) = True"
| "is_login _ = False"

section \<open>A sample session\<close>

text \<open>
  Two seats of one college, one cutoff record for its \<^verbatim>\<open>CS\<close> course, both courses
  whitelisted.
\<close>

definition no_seats :: SeatData where
  "no_seats = \<lparr>seat_id = [], colCode = [], colName = [], branCode = [], branName = [],
     seat_OC = JUndefined, seat_BC = JUndefined, seat_BCM = JUndefined, seat_MBC = JUndefined,
     seat_SC = JUndefined, seat_SCA = JUndefined, seat_ST = JUndefined\<rparr>"

definition no_cutoff :: CutoffData where
  "no_cutoff = \<lparr>coc = 0, brc = [], cut_OC = JUndefined, cut_BC = JUndefined,
     cut_BCM = JUndefined, cut_MBC = JUndefined, cut_SC = JUndefined, cut_SCA = JUndefined,
     cut_ST = JUndefined\<rparr>"

definition seat_s1 :: SeatData where
  "seat_s1 = no_seats\<lparr>seat_id := ''s1'', colCode := ''100'', colName := ''Chennai Inst'',
     branCode := ''CS'', branName := ''Computer Science'', seat_MBC := JNumber 5\<rparr>"

definition seat_s2 :: SeatData where
  "seat_s2 = no_seats\<lparr>seat_id := ''s2'', colCode := ''100'', colName := ''Chennai Inst'',
     branCode := ''EC'', branName := ''Electronics'', seat_MBC := JNumber 3\<rparr>"

definition cutoff_100_CS :: CutoffData where
  "cutoff_100_CS = no_cutoff\<lparr>coc := 100, brc := ''CS'', cut_MBC := JString ''90.5''\<rparr>"

definition sample_courses :: "Course list" where
  "sample_courses =
     [\<lparr>course_branCode = ''CS'', course_branName = ''Computer Science''\<rparr>,
      \<lparr>course_branCode = ''EC'', course_branName = ''Electronics''\<rparr>]"

definition sample_state :: server_state where
  "sample_state = \<lparr>sessionId = Some ''abc'', seatMatrix = [seat_s1, seat_s2],
     cutoffData = [cutoff_100_CS], preferredCourses = sample_courses\<rparr>"

text \<open>
  A larger session: three colleges with cutoffs \<open>80\<close>, \<open>90.5\<close> and \<open>95\<close>, a second \<^verbatim>\<open>CS\<close>
  record for college 100 that comes later in the table, and a seat of a college with no
  cutoff record.
\<close>

definition seat_t1 :: SeatData where
  "seat_t1 = no_seats\<lparr>seat_id := ''t1'', colCode := ''200'', colName := ''Salem College'',
     branCode := ''CS'', branName := ''Computer Science'', seat_MBC := JNumber 4\<rparr>"

definition seat_t2 :: SeatData where
  "seat_t2 = no_seats\<lparr>seat_id := ''t2'', colCode := ''300'', colName := ''Madurai Tech'',
     branCode := ''ME'', branName := ''Mechanical'', seat_MBC := JNumber 2\<rparr>"

definition seat_t3 :: SeatData where
  "seat_t3 = no_seats\<lparr>seat_id := ''t3'', colCode := ''400'', colName := ''Chennai Annex'',
     branCode := ''CS'', branName := ''Computer Science'', seat_MBC := JNumber 1\<rparr>"

definition cutoff_200_CS :: CutoffData where
  "cutoff_200_CS = no_cutoff\<lparr>coc := 200, brc := ''CS'', cut_MBC := JNumber 95\<rparr>"

definition cutoff_300_CS :: CutoffData where
  "cutoff_300_CS = no_cutoff\<lparr>coc := 300, brc := ''CS'', cut_MBC := JString ''n/a'',
     cut_OC := JNumber 80\<rparr>"

definition cutoff_100_CS_later :: CutoffData where
  "cutoff_100_CS_later = no_cutoff\<lparr>coc := 100, brc := ''CS'', cut_MBC := JString ''70''\<rparr>"

definition city_cutoffs :: "CutoffData list" where
  "city_cutoffs = [cutoff_300_CS, cutoff_100_CS, cutoff_200_CS, cutoff_100_CS_later]"

definition city_courses :: "Course list" where
  "city_courses = sample_courses @ [\<lparr>course_branCode = ''ME'', course_branName = ''Mechanical''\<rparr>]"

definition city_state :: server_state where
  "city_state = \<lparr>sessionId = Some ''abc'',
     seatMatrix = [seat_t2, seat_s1, seat_t1, seat_s2, seat_t3],
     cutoffData = city_cutoffs, preferredCourses = city_courses\<rparr>"

text \<open>The candidates that session yields.\<close>

definition cand_s1 :: ValidSelection where
  "cand_s1 = \<lparr>sel_id = ''s1'', college = ''Chennai Inst'', branch = ''Computer Science'',
     cutoff = Fin (181 / 2)\<rparr>"

definition cand_s2 :: ValidSelection where
  "cand_s2 = \<lparr>sel_id = ''s2'', college = ''Chennai Inst'', branch = ''Electronics'',
     cutoff = Fin (181 / 2)\<rparr>"

definition cand_t1 :: ValidSelection where
  "cand_t1 = \<lparr>sel_id = ''t1'', college = ''Salem College'', branch = ''Computer Science'',
     cutoff = Fin 95\<rparr>"

definition cand_t2 :: ValidSelection where
  "cand_t2 = \<lparr>sel_id = ''t2'', college = ''Madurai Tech'', branch = ''Mechanical'',
     cutoff = Fin 80\<rparr>"

definition city_districts :: "string list" where
  "city_districts = [''chennai'', ''SALEM'', ''Madurai'']"






text \<open>A cutoff record whose \<^verbatim>\<open>MBC\<close> value is the text \<^verbatim>\<open>0\<close>.\<close>

definition cutoff_zero_MBC :: CutoffData where
  "cutoff_zero_MBC = no_cutoff\<lparr>coc := 100, brc := ''CS'',
     cut_MBC := JString ''0'', cut_OC := JString ''77.5''\<rparr>"

definition empty_districts :: GenerateChoicesArgs where
  "empty_districts = \<lparr>arg_districtChoices = ArgArray [], arg_topPrefDist = None,
     arg_minCutoff = None, arg_category = None\<rparr>"

definition sample_login :: tool_call where
  "sample_login = login (Some (''user'', ''secret''))
     (Some \<lparr>login_sessionId = Some ''xyz'', login_name = ''User''\<rparr>)"

section \<open>Facts about the stages\<close>

subsection \<open>Comparisons and the sort\<close>

lemma js_gt_sub: "a \<noteq> NaN \<Longrightarrow> b \<noteq> NaN \<Longrightarrow> js_gt (js_sub b a) (Fin 0) = js_gt b a"
  by (cases a; cases b) auto

lemma js_ge_iff: "a \<noteq> NaN \<Longrightarrow> b \<noteq> NaN \<Longrightarrow> js_ge a b = (\<not> js_gt b a)"
  by (cases a; cases b) auto

lemma js_gt_trans: "js_gt a b \<Longrightarrow> js_gt b c \<Longrightarrow> js_gt a c"
  by (cases a; cases b; cases c) auto

lemma js_ge_trans: "js_ge a b \<Longrightarrow> js_ge b c \<Longrightarrow> js_ge a c"
  by (cases a; cases b; cases c) auto

lemma js_gt_irrefl: "\<not> js_gt a a"
  by (cases a) auto

lemma js_gt_imp_ge: "js_gt a b \<Longrightarrow> js_ge a b"
  by (cases a; cases b) auto

lemma compareCutoff_pos:
  "cutoff x \<noteq> NaN \<Longrightarrow> cutoff y \<noteq> NaN \<Longrightarrow>
   js_gt (compareCutoff x y) (Fin 0) = js_gt (cutoff y) (cutoff x)"
  unfolding compareCutoff_def by (rule js_gt_sub)

lemma set_sort_insert: "set (sort_insert cmp x ys) = insert x (set ys)"
  by (induction ys) auto

lemma set_js_sort: "set (js_sort cmp xs) = set xs"
  by (induction xs) (auto simp: js_sort_def set_sort_insert)

lemma length_sort_insert: "length (sort_insert cmp x ys) = Suc (length ys)"
  by (induction ys) auto

lemma sorted_sort_insert:
  assumes "cutoff x \<noteq> NaN" "\<forall>y\<in>set ys. cutoff y \<noteq> NaN"
    "sorted_wrt (\<lambda>a b. js_ge (cutoff a) (cutoff b)) ys"
  shows "sorted_wrt (\<lambda>a b. js_ge (cutoff a) (cutoff b)) (sort_insert compareCutoff x ys)"
  using assms
proof (induction ys)
  case Nil
  then show ?case by simp
next
  case (Cons y ys)
  show ?case
  proof (cases "js_gt (cutoff y) (cutoff x)")
    case True
    have "\<forall>z\<in>set (sort_insert compareCutoff x ys). js_ge (cutoff y) (cutoff z)"
      using Cons.prems True by (auto simp: set_sort_insert js_gt_imp_ge)
    with Cons True show ?thesis
      by (simp add: compareCutoff_pos)
  next
    case False
    then have xy: "js_ge (cutoff x) (cutoff y)"
      using Cons.prems by (simp add: js_ge_iff)
    have "\<forall>z\<in>set ys. js_ge (cutoff x) (cutoff z)"
      using Cons.prems xy by (auto intro: js_ge_trans)
    with Cons.prems False xy show ?thesis
      by (simp add: compareCutoff_pos)
  qed
qed

lemma sorted_js_sort:
  "\<forall>y\<in>set xs. cutoff y \<noteq> NaN \<Longrightarrow>
   sorted_wrt (\<lambda>a b. js_ge (cutoff a) (cutoff b)) (js_sort compareCutoff xs)"
proof (induction xs)
  case Nil
  then show ?case by (simp add: js_sort_def)
next
  case (Cons x xs)
  have "sorted_wrt (\<lambda>a b. js_ge (cutoff a) (cutoff b)) (sort_insert compareCutoff x (js_sort compareCutoff xs))"
    using Cons by (intro sorted_sort_insert) (auto simp: set_js_sort)
  then show ?case by (simp add: js_sort_def)
qed



subsection \<open>The cutoff score\<close>

lemma cutoffScore_eq:
  "cutoffScore cat m =
     (if parseFloatString (cutoff_field cat m) = NaN \<or>
         parseFloatString (cutoff_field cat m) = Fin 0
      then parseFloatString (cut_OC m)
      else parseFloatString (cutoff_field cat m))"
  by (cases "parseFloatString (cutoff_field cat m)") (simp_all add: cutoffScore_def js_or_def)

subsection \<open>The two loops\<close>

lemma validSelections_process_seat:
  "validSelections (process_seat courses cd cat ls seat) =
     validSelections ls @ (case pushed courses cd cat seat of None \<Rightarrow> [] | Some v \<Rightarrow> [v])"
  by (simp add: process_seat_def pushed_def Let_def split: option.splits)

lemma validSelections_foldl:
  "validSelections (foldl (process_seat courses cd cat) ls seats) =
     validSelections ls @ List.map_filter (pushed courses cd cat) seats"
proof (induction seats arbitrary: ls)
  case Nil
  then show ?case by simp
next
  case (Cons s seats)
  then show ?case
    by (simp add: validSelections_process_seat split: option.splits)
qed

lemma validSelections_seat_loop:
  "validSelections (seat_loop st cat) =
     List.map_filter (pushed (preferredCourses st) (cutoffData st) cat) (seatMatrix st)"
  by (simp add: seat_loop_def validSelections_foldl loop_init_def)

lemma partition_loop_foldl:
  "foldl (partition_step t m) acc items =
     (fst acc @ filter (\<lambda>v. group_A t m (college v) (cutoff v)) items,
      snd acc @ filter (\<lambda>v. \<not> group_A t m (college v) (cutoff v)) items)"
  by (induction items arbitrary: acc) (auto simp: partition_step_def group_A_def Let_def)

lemma partition_loop_eq:
  "partition_loop t m items =
     (filter (\<lambda>v. group_A t m (college v) (cutoff v)) items,
      filter (\<lambda>v. \<not> group_A t m (college v) (cutoff v)) items)"
  by (simp add: partition_loop_def partition_loop_foldl)

subsection \<open>Candidates and their seats\<close>

lemma some_district_Nil: "some_district [] name = False"
  by (simp add: some_district_def)

lemma some_district_iff:
  "some_district ds name \<longleftrightarrow> (\<exists>dist\<in>set ds. str_includes (normalize name) (normalize dist))"
  by (simp add: some_district_def list_ex_iff)

lemma seats_available_iff: "seats_available v \<longleftrightarrow> (\<exists>n. v = JNumber n \<and> 0 < n)"
  by (cases v) auto

lemma isNaN_iff: "isNaN a \<longleftrightarrow> a = NaN"
  by (cases a) auto

lemma pushed_SomeD:
  assumes "pushed courses cd cat seat = Some v"
  shows "branCode seat \<in> set (map course_branCode courses) \<and>
         seats_available (seat_field cat seat) \<and>
         (\<exists>m. matchingCutoff cd seat = Some m \<and> \<not> isNaN (cutoffScore cat m) \<and>
              v = \<lparr>sel_id = seat_id seat, college = colName seat, branch = branName seat,
                   cutoff = cutoffScore cat m\<rparr>)"
  using assms by (auto simp: pushed_def split: if_splits option.splits)

lemma set_map_filter_conv:
  "set (List.map_filter f xs) = {y. \<exists>x\<in>set xs. f x = Some y}"
  by (induction xs) (auto split: option.splits)

lemma set_validSelections:
  "set (validSelections (seat_loop st cat)) =
     {v. \<exists>seat\<in>set (seatMatrix st). pushed (preferredCourses st) (cutoffData st) cat seat = Some v}"
  by (simp add: validSelections_seat_loop set_map_filter_conv)

lemma validSelections_not_NaN:
  "v \<in> set (validSelections (seat_loop st cat)) \<Longrightarrow> cutoff v \<noteq> NaN"
  by (auto simp: set_validSelections isNaN_iff dest!: pushed_SomeD)

lemma set_sorted_selections:
  "set (sorted_selections st cat) = set (validSelections (seat_loop st cat))"
  by (simp add: sorted_selections_def set_js_sort)

lemma sorted_sorted_selections:
  "sorted_wrt (\<lambda>a b. js_ge (cutoff a) (cutoff b)) (sorted_selections st cat)"
  unfolding sorted_selections_def
  by (rule sorted_js_sort) (simp add: validSelections_not_NaN)

lemma sorted_wrt_filter_keep: "sorted_wrt R xs \<Longrightarrow> sorted_wrt R (filter P xs)"
  by (induction xs) auto

lemma sorted_filteredByDistrict:
  "sorted_wrt (\<lambda>a b. js_ge (cutoff a) (cutoff b)) (filteredByDistrict st d cat)"
  unfolding filteredByDistrict_def
  by (rule sorted_wrt_filter_keep) (rule sorted_sorted_selections)

lemma topPreferredHighCutoff_eq:
  "topPreferredHighCutoff st d t m cat =
     filter (\<lambda>v. group_A t m (college v) (cutoff v)) (filteredByDistrict st d cat)"
  by (simp add: topPreferredHighCutoff_def partition_loop_eq)

lemma others_eq:
  "others st d t m cat =
     filter (\<lambda>v. \<not> group_A t m (college v) (cutoff v)) (filteredByDistrict st d cat)"
  by (simp add: others_def partition_loop_eq)

lemma set_finalSorted:
  "set (finalSorted st d t m cat) =
     {v \<in> set (validSelections (seat_loop st cat)). some_district d (college v)}"
  by (auto simp: finalSorted_def topPreferredHighCutoff_eq others_eq filteredByDistrict_def
      set_sorted_selections)

lemma finalSorted_origin:
  assumes "v \<in> set (finalSorted st d t m cat)"
  shows "some_district d (college v) \<and>
     (\<exists>seat\<in>set (seatMatrix st).
        pushed (preferredCourses st) (cutoffData st) cat seat = Some v)"
  using assms by (auto simp: set_finalSorted set_validSelections)

lemma selections_eq:
  "selections (generateSelectionPayload st d t m cat) = map sel_id (finalSorted st d t m cat)"
  by (simp add: generateSelectionPayload_def Let_def)

lemma reference_eq:
  "reference (generateSelectionPayload st d t m cat) =
     map reference_of (finalSorted st d t m cat)"
  by (simp add: generateSelectionPayload_def Let_def)

lemma append_groups_index:
  assumes "\<forall>a\<in>set A. P a" "\<forall>b\<in>set B. \<not> P b"
    "i < length (A @ B)" "j < length (A @ B)" "P ((A @ B) ! i)" "\<not> P ((A @ B) ! j)"
  shows "i < j"
proof -
  have i: "i < length A"
  proof (rule ccontr)
    assume "\<not> i < length A"
    then have "(A @ B) ! i \<in> set B" using assms(3) by (simp add: nth_append)
    with assms(2,5) show False by blast
  qed
  have j: "\<not> j < length A"
  proof
    assume "j < length A"
    then have "(A @ B) ! j \<in> set A" by (simp add: nth_append)
    with assms(1,6) show False by blast
  qed
  from i j show ?thesis by simp
qed


lemma generateSelectionPayload_no_districts:
  "generateSelectionPayload st [] t m cat = \<lparr>selections = [], reference = []\<rparr>"
  by (simp add: generateSelectionPayload_def finalSorted_def topPreferredHighCutoff_def
      others_def filteredByDistrict_def some_district_Nil partition_loop_eq)

subsection \<open>The handlers and the state\<close>

lemma handleGenerateChoices_state: "snd (handleGenerateChoices st args) = st"
  by (simp add: handleGenerateChoices_def Let_def split: array_arg.splits)

lemma dispatch_state_changes:
  "snd (dispatch st call) \<noteq> st \<Longrightarrow> is_fetch_or_load call \<or> is_login call"
  by (cases "(st, call)" rule: dispatch.cases)
     (auto simp: handleGenerateChoices_state handleSubmitChoices_def handleGetSessionStatus_def
       split: option.splits if_splits)

lemma snd_callTool: "snd (callTool st call) = snd (dispatch st call)"
  by (simp add: callTool_def split: prod.splits sum.splits)

lemma dispatch_seatMatrix:
  "seatMatrix (snd (dispatch st call)) \<noteq> seatMatrix st \<Longrightarrow> \<exists>r. call = get_available_seats r"
  by (cases "(st, call)" rule: dispatch.cases)
     (auto simp: handleGenerateChoices_state handleSubmitChoices_def
       handleGetSessionStatus_def handleLogin_def handleLoadCutoffData_def
       handleLoadCoursePreferences_def
       split: option.splits if_splits)

lemma dispatch_cutoffData:
  "cutoffData (snd (dispatch st call)) \<noteq> cutoffData st \<Longrightarrow> \<exists>f. call = load_cutoff_data f"
  by (cases "(st, call)" rule: dispatch.cases)
     (auto simp: handleGenerateChoices_state handleSubmitChoices_def
       handleGetSessionStatus_def handleLogin_def handleGetAvailableSeats_def
       handleLoadCoursePreferences_def
       split: option.splits if_splits)

lemma dispatch_preferredCourses:
  "preferredCourses (snd (dispatch st call)) \<noteq> preferredCourses st \<Longrightarrow>
   \<exists>f. call = load_course_preferences f"
  by (cases "(st, call)" rule: dispatch.cases)
     (auto simp: handleGenerateChoices_state handleSubmitChoices_def
       handleGetSessionStatus_def handleLogin_def handleGetAvailableSeats_def
       handleLoadCutoffData_def
       split: option.splits if_splits)

lemma dispatch_sessionId:
  "sessionId (snd (dispatch st call)) \<noteq> sessionId st \<Longrightarrow> is_login call"
  by (cases "(st, call)" rule: dispatch.cases)
     (auto simp: handleGenerateChoices_state handleSubmitChoices_def
       handleGetSessionStatus_def handleLoadCoursePreferences_def handleGetAvailableSeats_def
       handleLoadCutoffData_def
       split: option.splits if_splits)

lemma matchingCutoff_no_college:
  assumes "\<forall>c\<in>set cd. String_int (coc c) \<noteq> colCode seat"
  shows "matchingCutoff cd seat = None"
proof -
  have "List.find (exact_match seat) cd = None" "List.find (cs_match seat) cd = None"
    using assms by (auto simp: find_None_iff exact_match_def cs_match_def)
  then show ?thesis by (simp add: matchingCutoff_def)
qed

lemma pushed_no_college:
  "\<forall>c\<in>set cd. String_int (coc c) \<noteq> colCode seat \<Longrightarrow> pushed courses cd cat seat = None"
  by (simp add: pushed_def matchingCutoff_no_college)

lemma map_filter_removeAll:
  "f x = None \<Longrightarrow> List.map_filter f (removeAll x xs) = List.map_filter f xs"
  by (induction xs) (auto split: option.splits)

lemma payload_depends_on_validSelections:
  "validSelections (seat_loop st' cat) = validSelections (seat_loop st cat) \<Longrightarrow>
   generateSelectionPayload st' d t m cat = generateSelectionPayload st d t m cat"
  by (simp add: generateSelectionPayload_def finalSorted_def topPreferredHighCutoff_def
      others_def filteredByDistrict_def sorted_selections_def)


lemma finalSorted_nth_origin:
  assumes "i < length (finalSorted st d t m cat)"
  shows "\<exists>seat\<in>set (seatMatrix st). \<exists>c.
     matchingCutoff (cutoffData st) seat = Some c \<and> \<not> isNaN (cutoffScore cat c) \<and>
     finalSorted st d t m cat ! i =
       \<lparr>sel_id = seat_id seat, college = colName seat, branch = branName seat,
        cutoff = cutoffScore cat c\<rparr> \<and>
     branCode seat \<in> set (map course_branCode (preferredCourses st)) \<and>
     seats_available (seat_field cat seat) \<and>
     some_district d (colName seat)"
proof -
  let ?v = "finalSorted st d t m cat ! i"
  have "?v \<in> set (finalSorted st d t m cat)" using assms by simp
  from finalSorted_origin [OF this] obtain seat where
    seat: "seat \<in> set (seatMatrix st)" "some_district d (college ?v)"
      "pushed (preferredCourses st) (cutoffData st) cat seat = Some ?v"
    by blast
  from pushed_SomeD [OF seat(3)] obtain c where
    c: "matchingCutoff (cutoffData st) seat = Some c" "\<not> isNaN (cutoffScore cat c)"
      "?v = \<lparr>sel_id = seat_id seat, college = colName seat, branch = branName seat,
        cutoff = cutoffScore cat c\<rparr>"
      "branCode seat \<in> set (map course_branCode (preferredCourses st))"
      "seats_available (seat_field cat seat)"
    by blast
  from c(3) have "college ?v = colName seat" by simp
  with seat(2) have "some_district d (colName seat)" by simp
  with seat(1) c show ?thesis by blast
qed


lemma pushed_in_validSelections:
  "seat \<in> set (seatMatrix st) \<Longrightarrow>
   pushed (preferredCourses st) (cutoffData st) cat seat = Some v \<Longrightarrow>
   v \<in> set (validSelections (seat_loop st cat))"
  by (auto simp: set_validSelections)

lemma zip_selections_reference:
  "zip (selections (generateSelectionPayload st d t m cat))
       (reference (generateSelectionPayload st d t m cat)) =
     map (\<lambda>item. (sel_id item, reference_of item)) (finalSorted st d t m cat)"
  by (simp add: selections_eq reference_eq zip_map_map) (simp add: zip_same_conv_map)

lemma validSelections_of_seat:
  assumes "distinct (map seat_id (seatMatrix st))" "seat \<in> set (seatMatrix st)"
    "v \<in> set (validSelections (seat_loop st cat))" "sel_id v = seat_id seat"
  shows "pushed (preferredCourses st) (cutoffData st) cat seat = Some v"
proof -
  from assms(3) obtain s where s: "s \<in> set (seatMatrix st)"
    "pushed (preferredCourses st) (cutoffData st) cat s = Some v"
    by (auto simp: set_validSelections)
  from pushed_SomeD [OF s(2)] have "sel_id v = seat_id s" by auto
  with assms(4) have "seat_id s = seat_id seat" by simp
  moreover from assms(1) have "inj_on seat_id (set (seatMatrix st))"
    by (simp add: distinct_map)
  ultimately have "s = seat" using s(1) assms(2) by (auto dest: inj_onD)
  with s(2) show ?thesis by simp
qed

lemma in_zip_payload:
  "v \<in> set (finalSorted st d t m cat) \<Longrightarrow>
   (sel_id v, reference_of v)
     \<in> set (zip (selections (generateSelectionPayload st d t m cat))
                 (reference (generateSelectionPayload st d t m cat)))"
  by (auto simp: zip_selections_reference)

subsection \<open>The sample session, evaluated\<close>

lemma pushed_s1: "pushed city_courses city_cutoffs MBC seat_s1 = Some cand_s1"
  by code_simp
lemma pushed_s2: "pushed city_courses city_cutoffs MBC seat_s2 = Some cand_s2"
  by code_simp
lemma pushed_t1: "pushed city_courses city_cutoffs MBC seat_t1 = Some cand_t1"
  by code_simp
lemma pushed_t2: "pushed city_courses city_cutoffs MBC seat_t2 = Some cand_t2"
  by code_simp
lemma pushed_t3: "pushed city_courses city_cutoffs MBC seat_t3 = None"
  by code_simp

lemma city_district_names:
  "some_district city_districts ''Chennai Inst''"
  "some_district city_districts ''Salem College''"
  "some_district city_districts ''Madurai Tech''"
  by code_simp+

lemma chennai_names:
  "some_district [''Chennai''] ''Chennai Inst''"
  "\<not> some_district [''Chennai''] ''Salem College''"
  "\<not> some_district [''Chennai''] ''Madurai Tech''"
  by code_simp+

lemma city_validSelections:
  "validSelections (seat_loop city_state MBC) = [cand_t2, cand_s1, cand_t1, cand_s2]"
  by (simp add: validSelections_seat_loop city_state_def pushed_s1 pushed_s2 pushed_t1
      pushed_t2 pushed_t3)

lemma cand_fields:
  "cutoff cand_s1 = Fin (181 / 2)" "cutoff cand_s2 = Fin (181 / 2)"
  "cutoff cand_t1 = Fin 95" "cutoff cand_t2 = Fin 80"
  "college cand_s1 = ''Chennai Inst''" "college cand_s2 = ''Chennai Inst''"
  "college cand_t1 = ''Salem College''" "college cand_t2 = ''Madurai Tech''"
  "sel_id cand_s1 = ''s1''" "sel_id cand_s2 = ''s2''"
  "sel_id cand_t1 = ''t1''" "sel_id cand_t2 = ''t2''"
  by (simp_all add: cand_s1_def cand_s2_def cand_t1_def cand_t2_def)

lemma city_sorted_selections:
  "sorted_selections city_state MBC = [cand_t1, cand_s1, cand_s2, cand_t2]"
  by (simp add: sorted_selections_def city_validSelections js_sort_def compareCutoff_def
      cand_fields)

lemma city_filteredByDistrict:
  "filteredByDistrict city_state city_districts MBC = [cand_t1, cand_s1, cand_s2, cand_t2]"
  by (simp add: filteredByDistrict_def city_sorted_selections cand_fields city_district_names)

lemma city_topPreferredHighCutoff:
  "topPreferredHighCutoff city_state city_districts [''Chennai''] 85 MBC = [cand_s1, cand_s2]"
  by (simp add: topPreferredHighCutoff_eq city_filteredByDistrict group_A_def cand_fields
      chennai_names)

lemma city_others:
  "others city_state city_districts [''Chennai''] 85 MBC = [cand_t1, cand_t2]"
  by (simp add: others_eq city_filteredByDistrict group_A_def cand_fields chennai_names)

lemma city_finalSorted:
  "finalSorted city_state city_districts [''Chennai''] 85 MBC =
     [cand_s1, cand_s2, cand_t1, cand_t2]"
  by (simp add: finalSorted_def city_topPreferredHighCutoff city_others)

lemma city_selections:
  "selections (generateSelectionPayload city_state city_districts [''Chennai''] 85 MBC) =
     [''s1'', ''s2'', ''t1'', ''t2'']"
  by (simp add: selections_eq city_finalSorted cand_fields)

lemma city_reference:
  "reference (generateSelectionPayload city_state city_districts [''Chennai''] 85 MBC) =
     [reference_of cand_s1, reference_of cand_s2, reference_of cand_t1, reference_of cand_t2]"
  by (simp add: reference_eq city_finalSorted)

lemma reference_of_fields:
  "ref_college (reference_of v) = college v"
  "ref_branch (reference_of v) = branch v"
  "ref_cutoff (reference_of v) = cutoff v"
  by (simp_all add: reference_of_def)

lemma city_cutoffs_nth:
  "city_cutoffs ! 0 = cutoff_300_CS" "city_cutoffs ! 1 = cutoff_100_CS"
  "city_cutoffs ! 3 = cutoff_100_CS_later" "length city_cutoffs = 4"
  by (simp_all add: city_cutoffs_def)

lemma seat_s2_matches:
  "\<forall>c\<in>set city_cutoffs. \<not> exact_match seat_s2 c"
  "\<not> cs_match seat_s2 cutoff_300_CS"
  "cs_match seat_s2 cutoff_100_CS"
  "cs_match seat_s2 cutoff_100_CS_later"
  "matchingCutoff city_cutoffs seat_s2 = Some cutoff_100_CS"
  "cutoffScore MBC cutoff_100_CS = Fin (181 / 2)"
  by code_simp+

lemma seat_t3_facts:
  "seat_t3 \<in> set (seatMatrix city_state)"
  "\<forall>c\<in>set (cutoffData city_state). String_int (coc c) \<noteq> colCode seat_t3"
  "distinct (map seat_id (seatMatrix city_state))"
  "branCode seat_t3 \<in> set (map course_branCode (preferredCourses city_state))"
  "seats_available (seat_field MBC seat_t3)"
  "some_district city_districts (colName seat_t3)"
  "seat_id seat_t3 = ''t3''"
  by code_simp+

lemma seat_t1_facts:
  "seat_t1 \<in> set (seatMatrix city_state)"
  "seat_id seat_t1 = ''t1''" "colName seat_t1 = ''Salem College''"
  "branName seat_t1 = ''Computer Science''"
  "branCode seat_t1 \<in> course_branCode ` set (preferredCourses city_state)"
  "seat_field MBC seat_t1 = JNumber 4"
  "str_includes (toLowerCase (colName seat_t1)) (toLowerCase ''SALEM'')"
  "''SALEM'' \<in> set city_districts"
  "matchingCutoff (cutoffData city_state) seat_t1 = Some cutoff_200_CS"
  "cutoffScore MBC cutoff_200_CS = Fin 95"
  by code_simp+









section \<open>The properties\<close>

text \<open>
  C1. Claimed: whenever \<^verbatim>\<open>districtChoices\<close> is the empty array, \<^verbatim>\<open>generate_choices\<close> raises a
  precondition error and does not return an empty selection list. The guard of
  \<^verbatim>\<open>handleGenerateChoices\<close> rejects a missing value and a value that is not an array; the
  empty array passes it. With the three datasets loaded the handler returns normally,
  reporting 0 choices.
\<close>

theorem generate_empty_districts_counterexample:
  "fst (handleGenerateChoices sample_state empty_districts) =
     Inr (Generated \<lparr>generated = 0, top10 = [], and_more = None\<rparr>) \<and>
   arg_districtChoices empty_districts = ArgArray [] \<and>
   selections (generateSelectionPayload sample_state [] [] 85 MBC) = []"
  by (simp add: handleGenerateChoices_def empty_districts_def sample_state_def
      sample_courses_def generateSelectionPayload_no_districts)

text \<open>
  C1, as the code has it. With \<^verbatim>\<open>districtChoices\<close> the empty array, the handler throws
  exactly when the seat matrix, the cutoff data or the course preferences are empty (the
  error of the first one that is); otherwise it returns the reply for an empty selection
  list.
\<close>

theorem generate_empty_districts:
  assumes "arg_districtChoices args = ArgArray []"
  shows "fst (handleGenerateChoices st args) =
     (if seatMatrix st = [] then
        Inl (Error ''Seat matrix not loaded. Please fetch available seats first.'')
      else if cutoffData st = [] then
        Inl (Error ''Cutoff data not loaded. Please load cutoff data first.'')
      else if preferredCourses st = [] then
        Inl (Error ''Course preferences not loaded. Please load course preferences first.'')
      else Inr (Generated \<lparr>generated = 0, top10 = [], and_more = None\<rparr>))"
  using assms
  by (simp add: handleGenerateChoices_def generateSelectionPayload_no_districts Let_def)

theorem generate_empty_districts_witness:
  "arg_districtChoices empty_districts = ArgArray [] \<and>
   fst (handleGenerateChoices (sample_state\<lparr>seatMatrix := []\<rparr>) empty_districts) =
     Inl (Error ''Seat matrix not loaded. Please fetch available seats first.'') \<and>
   fst (handleGenerateChoices city_state empty_districts) =
     Inr (Generated \<lparr>generated = 0, top10 = [], and_more = None\<rparr>)"
proof -
  have a: "arg_districtChoices empty_districts = ArgArray []"
    by (simp add: empty_districts_def)
  have c: "seatMatrix city_state \<noteq> [] \<and> cutoffData city_state \<noteq> [] \<and>
     preferredCourses city_state \<noteq> []"
    by (simp add: city_state_def city_cutoffs_def city_courses_def sample_courses_def)
  show ?thesis
    using a c generate_empty_districts [OF a, of "sample_state\<lparr>seatMatrix := []\<rparr>"]
      generate_empty_districts [OF a, of city_state]
    by simp
qed

text \<open>
  C2. The cutoff score is the parse of the category's value when that parse succeeds, and
  the value at \<^verbatim>\<open>OC\<close> is parsed only when it fails. The code joins the two parses with
  \<^verbatim>\<open>||\<close>, which also discards a category value that parses to \<open>0\<close>: for a record whose
  \<^verbatim>\<open>MBC\<close> value is the text \<^verbatim>\<open>0\<close> and whose \<^verbatim>\<open>OC\<close> value is \<^verbatim>\<open>77.5\<close>, the category parse
  succeeds with \<open>0\<close> and the score is nevertheless \<open>77.5\<close>.
\<close>

theorem cutoffScore_zero_category_takes_OC:
  "parseFloatString (cutoff_field MBC cutoff_zero_MBC) = Fin 0 \<and>
   parseFloatString (cut_OC cutoff_zero_MBC) = Fin (155 / 2) \<and>
   cutoffScore MBC cutoff_zero_MBC = Fin (155 / 2)"
  by code_simp

text \<open>
  C3. In the returned reference list every Group A entry (top-district match with cutoff
  above the threshold) stands before every Group B entry, whatever their cutoffs, and the
  cutoffs of the Group A entries, and of the Group B entries, are non-increasing.
\<close>

theorem group_A_before_group_B:
  "(\<forall>i j. i < length (reference (generateSelectionPayload st d t m cat)) \<and>
          j < length (reference (generateSelectionPayload st d t m cat)) \<and>
          group_A t m (ref_college (reference (generateSelectionPayload st d t m cat) ! i))
                      (ref_cutoff (reference (generateSelectionPayload st d t m cat) ! i)) \<and>
          \<not> group_A t m (ref_college (reference (generateSelectionPayload st d t m cat) ! j))
                        (ref_cutoff (reference (generateSelectionPayload st d t m cat) ! j))
          \<longrightarrow> i < j) \<and>
   sorted_wrt (\<lambda>a b. js_ge (ref_cutoff a) (ref_cutoff b))
     (filter (\<lambda>r. group_A t m (ref_college r) (ref_cutoff r))
        (reference (generateSelectionPayload st d t m cat))) \<and>
   sorted_wrt (\<lambda>a b. js_ge (ref_cutoff a) (ref_cutoff b))
     (filter (\<lambda>r. \<not> group_A t m (ref_college r) (ref_cutoff r))
        (reference (generateSelectionPayload st d t m cat)))"
proof -
  let ?F = "filteredByDistrict st d cat"
  let ?g = "\<lambda>v. group_A t m (college v) (cutoff v)"
  let ?inA = "\<lambda>r. group_A t m (ref_college r) (ref_cutoff r)"
  let ?A = "map reference_of (filter ?g ?F)"
  let ?B = "map reference_of (filter (\<lambda>v. \<not> ?g v) ?F)"
  have refs: "reference (generateSelectionPayload st d t m cat) = ?A @ ?B"
    by (simp add: reference_eq finalSorted_def topPreferredHighCutoff_eq others_eq)
  have A: "\<forall>a\<in>set ?A. ?inA a" and B: "\<forall>b\<in>set ?B. \<not> ?inA b"
    by (auto simp: reference_of_def)
  have fA: "filter ?inA (?A @ ?B) = ?A" and fB: "filter (\<lambda>r. \<not> ?inA r) (?A @ ?B) = ?B"
    using A B by (simp_all add: filter_id_conv filter_empty_conv)
  have sF: "sorted_wrt (\<lambda>a b. js_ge (cutoff a) (cutoff b)) ?F"
    by (rule sorted_filteredByDistrict)
  have sA: "sorted_wrt (\<lambda>a b. js_ge (ref_cutoff a) (ref_cutoff b)) ?A"
    using sorted_wrt_filter_keep [OF sF, of ?g] by (simp add: sorted_wrt_map reference_of_def)
  have sB: "sorted_wrt (\<lambda>a b. js_ge (ref_cutoff a) (ref_cutoff b)) ?B"
    using sorted_wrt_filter_keep [OF sF, of "\<lambda>v. \<not> ?g v"]
    by (simp add: sorted_wrt_map reference_of_def)
  have idx: "\<forall>i j. i < length (?A @ ?B) \<and> j < length (?A @ ?B) \<and>
      ?inA ((?A @ ?B) ! i) \<and> \<not> ?inA ((?A @ ?B) ! j) \<longrightarrow> i < j"
    using append_groups_index [OF A B] by blast
  show ?thesis
    unfolding refs fA fB using idx sA sB by blast
qed



theorem group_A_before_group_B_witness:
  "reference (generateSelectionPayload city_state city_districts [''Chennai''] 85 MBC) ! 1 =
     reference_of cand_s2 \<and>
   reference (generateSelectionPayload city_state city_districts [''Chennai''] 85 MBC) ! 2 =
     reference_of cand_t1 \<and>
   group_A [''Chennai''] 85 (ref_college (reference_of cand_s2)) (ref_cutoff (reference_of cand_s2)) \<and>
   \<not> group_A [''Chennai''] 85 (ref_college (reference_of cand_t1)) (ref_cutoff (reference_of cand_t1)) \<and>
   (1::nat) < 2 \<and>
   js_gt (ref_cutoff (reference_of cand_t1)) (ref_cutoff (reference_of cand_s2)) \<and>
   filter (\<lambda>r. group_A [''Chennai''] 85 (ref_college r) (ref_cutoff r))
     (reference (generateSelectionPayload city_state city_districts [''Chennai''] 85 MBC)) =
     [reference_of cand_s1, reference_of cand_s2] \<and>
   js_ge (ref_cutoff (reference_of cand_s1)) (ref_cutoff (reference_of cand_s2))"
  using group_A_before_group_B [of city_state city_districts "[''Chennai'']" 85 MBC]
  by (simp add: city_reference reference_of_fields cand_fields group_A_def chennai_names)


text \<open>
  C4. A candidate that passed the district filter is put into \<^verbatim>\<open>topPreferredHighCutoff\<close>
  exactly when its college name contains a top district (case-insensitively) and its cutoff
  is strictly greater than \<^verbatim>\<open>minCutoff\<close>, and into \<^verbatim>\<open>others\<close> otherwise; a cutoff equal to
  the threshold does not give priority.
\<close>

theorem priority_group_iff:
  "(\<forall>v\<in>set (filteredByDistrict st d cat).
      (v \<in> set (topPreferredHighCutoff st d t m cat) \<longleftrightarrow>
         some_district t (college v) \<and> js_gt (cutoff v) (Fin m)) \<and>
      (v \<in> set (others st d t m cat) \<longleftrightarrow>
         \<not> (some_district t (college v) \<and> js_gt (cutoff v) (Fin m))) \<and>
      (cutoff v = Fin m \<longrightarrow> v \<notin> set (topPreferredHighCutoff st d t m cat))) \<and>
   topPreferredHighCutoff st d t m cat =
     filter (\<lambda>v. some_district t (college v) \<and> js_gt (cutoff v) (Fin m))
       (filteredByDistrict st d cat) \<and>
   others st d t m cat =
     filter (\<lambda>v. \<not> (some_district t (college v) \<and> js_gt (cutoff v) (Fin m)))
       (filteredByDistrict st d cat)"
  by (auto simp: topPreferredHighCutoff_eq others_eq group_A_def)



theorem priority_group_iff_witness:
  "cand_s1 \<in> set (filteredByDistrict city_state city_districts MBC) \<and>
   some_district [''Chennai''] (college cand_s1) \<and>
   cutoff cand_s1 = Fin (181 / 2) \<and>
   cand_s1 \<notin> set (topPreferredHighCutoff city_state city_districts [''Chennai''] (181 / 2) MBC) \<and>
   cand_s1 \<in> set (others city_state city_districts [''Chennai''] (181 / 2) MBC) \<and>
   cand_s1 \<in> set (topPreferredHighCutoff city_state city_districts [''Chennai''] 85 MBC) \<and>
   cand_t1 \<in> set (others city_state city_districts [''Chennai''] 85 MBC)"
  using priority_group_iff [of city_state city_districts MBC "[''Chennai'']" "181 / 2"]
    priority_group_iff [of city_state city_districts MBC "[''Chennai'']" 85]
  by (simp add: city_filteredByDistrict cand_fields chennai_names)


text \<open>
  C5. A seat of the seat matrix with no cutoff record for its (college, course) pair,
  whose college has a \<^verbatim>\<open>CS\<close> record, resolves to the first such record of the cutoff
  table. When the seat passes the course and availability checks and that record gives a
  number, the loop over the seat matrix emits the candidate with that record's score, and
  when the college name matches a district the returned lists hold the seat id with that
  score. Seat ids being unique, no entry for this seat carries any other score.
\<close>

theorem cs_fallback_resolves_first:
  assumes "seat \<in> set (seatMatrix st)"
    and "\<forall>c\<in>set (cutoffData st). \<not> exact_match seat c"
    and "\<exists>c\<in>set (cutoffData st). cs_match seat c"
  shows "\<exists>i<length (cutoffData st).
      cs_match seat (cutoffData st ! i) \<and>
      (\<forall>j<i. \<not> cs_match seat (cutoffData st ! j)) \<and>
      matchingCutoff (cutoffData st) seat = Some (cutoffData st ! i) \<and>
      (branCode seat \<in> set (map course_branCode (preferredCourses st)) \<and>
       seats_available (seat_field cat seat) \<and>
       \<not> isNaN (cutoffScore cat (cutoffData st ! i)) \<longrightarrow>
         \<lparr>sel_id = seat_id seat, college = colName seat, branch = branName seat,
          cutoff = cutoffScore cat (cutoffData st ! i)\<rparr>
           \<in> set (validSelections (seat_loop st cat)) \<and>
         (some_district d (colName seat) \<longrightarrow>
            (seat_id seat,
             \<lparr>ref_college = colName seat, ref_branch = branName seat,
              ref_cutoff = cutoffScore cat (cutoffData st ! i)\<rparr>)
              \<in> set (zip (selections (generateSelectionPayload st d t m cat))
                          (reference (generateSelectionPayload st d t m cat))))) \<and>
      (distinct (map seat_id (seatMatrix st)) \<longrightarrow>
         (\<forall>v\<in>set (validSelections (seat_loop st cat)).
            sel_id v = seat_id seat \<longrightarrow> cutoff v = cutoffScore cat (cutoffData st ! i)) \<and>
         (\<forall>j<length (selections (generateSelectionPayload st d t m cat)).
            selections (generateSelectionPayload st d t m cat) ! j = seat_id seat \<longrightarrow>
            ref_cutoff (reference (generateSelectionPayload st d t m cat) ! j) =
              cutoffScore cat (cutoffData st ! i)))"
proof -
  let ?cd = "cutoffData st"
  let ?P = "generateSelectionPayload st d t m cat"
  have none: "List.find (exact_match seat) ?cd = None"
    using assms(2) by (simp add: find_None_iff)
  from assms(3) obtain c where c: "List.find (cs_match seat) ?cd = Some c"
    by (cases "List.find (cs_match seat) ?cd") (auto simp: find_None_iff)
  then obtain i where i: "i < length ?cd" "cs_match seat (?cd ! i)" "c = ?cd ! i"
    "\<forall>j<i. \<not> cs_match seat (?cd ! j)"
    by (auto simp: find_Some_iff)
  have mc: "matchingCutoff ?cd seat = Some (?cd ! i)"
    using none c i(3) by (simp add: matchingCutoff_def)
  let ?v = "\<lparr>sel_id = seat_id seat, college = colName seat, branch = branName seat,
          cutoff = cutoffScore cat (?cd ! i)\<rparr>"
  have scored: "?v \<in> set (validSelections (seat_loop st cat)) \<and>
         (some_district d (colName seat) \<longrightarrow>
            (seat_id seat,
             \<lparr>ref_college = colName seat, ref_branch = branName seat,
              ref_cutoff = cutoffScore cat (?cd ! i)\<rparr>)
              \<in> set (zip (selections ?P) (reference ?P)))"
    if ok: "branCode seat \<in> set (map course_branCode (preferredCourses st))"
      "seats_available (seat_field cat seat)" "\<not> isNaN (cutoffScore cat (?cd ! i))"
  proof -
    have p: "pushed (preferredCourses st) ?cd cat seat = Some ?v"
      using ok mc by (simp add: pushed_def)
    have v: "?v \<in> set (validSelections (seat_loop st cat))"
      using assms(1) p by (rule pushed_in_validSelections)
    have "(seat_id seat,
             \<lparr>ref_college = colName seat, ref_branch = branName seat,
              ref_cutoff = cutoffScore cat (?cd ! i)\<rparr>)
              \<in> set (zip (selections ?P) (reference ?P))"
      if dm: "some_district d (colName seat)"
    proof -
      have "?v \<in> set (finalSorted st d t m cat)"
        using v dm by (simp add: set_finalSorted)
      then have "(sel_id ?v, reference_of ?v) \<in> set (zip (selections ?P) (reference ?P))"
        by (rule in_zip_payload)
      then show ?thesis by (simp add: reference_of_def)
    qed
    with v show ?thesis by blast
  qed
  have unique: "(\<forall>v\<in>set (validSelections (seat_loop st cat)).
            sel_id v = seat_id seat \<longrightarrow> cutoff v = cutoffScore cat (?cd ! i)) \<and>
         (\<forall>j<length (selections ?P).
            selections ?P ! j = seat_id seat \<longrightarrow>
            ref_cutoff (reference ?P ! j) = cutoffScore cat (?cd ! i))"
    if dist: "distinct (map seat_id (seatMatrix st))"
  proof -
    have a: "cutoff v = cutoffScore cat (?cd ! i)"
      if "v \<in> set (validSelections (seat_loop st cat))" "sel_id v = seat_id seat" for v
    proof -
      from validSelections_of_seat [OF dist assms(1) that]
      have "pushed (preferredCourses st) ?cd cat seat = Some v" .
      from pushed_SomeD [OF this] mc show ?thesis by auto
    qed
    have b: "ref_cutoff (reference ?P ! j) = cutoffScore cat (?cd ! i)"
      if "j < length (selections ?P)" "selections ?P ! j = seat_id seat" for j
    proof -
      from that(1) have j: "j < length (finalSorted st d t m cat)"
        by (simp add: selections_eq)
      then have "finalSorted st d t m cat ! j \<in> set (finalSorted st d t m cat)" by simp
      then have in_v: "finalSorted st d t m cat ! j \<in> set (validSelections (seat_loop st cat))"
        by (simp add: set_finalSorted)
      have "sel_id (finalSorted st d t m cat ! j) = seat_id seat"
        using that(2) j by (simp add: selections_eq)
      from a [OF in_v this] j show ?thesis
        by (simp add: reference_eq reference_of_def)
    qed
    from a b show ?thesis by blast
  qed
  from i(1,2,4) mc scored unique show ?thesis by blast
qed


theorem cs_fallback_resolves_first_witness:
  "seat_s2 \<in> set (seatMatrix city_state) \<and>
   \<not> cs_match seat_s2 (cutoffData city_state ! 0) \<and>
   cs_match seat_s2 (cutoffData city_state ! 1) \<and>
   cs_match seat_s2 (cutoffData city_state ! 3) \<and>
   matchingCutoff (cutoffData city_state) seat_s2 = Some (cutoffData city_state ! 1) \<and>
   cand_s2 \<in> set (validSelections (seat_loop city_state MBC)) \<and>
   some_district city_districts (colName seat_s2) \<and>
   (''s2'', reference_of cand_s2)
     \<in> set (zip (selections (generateSelectionPayload city_state city_districts [''Chennai''] 85 MBC))
                 (reference (generateSelectionPayload city_state city_districts [''Chennai''] 85 MBC))) \<and>
   selections (generateSelectionPayload city_state city_districts [''Chennai''] 85 MBC) ! 1 =
     seat_id seat_s2 \<and>
   ref_cutoff (reference (generateSelectionPayload city_state city_districts [''Chennai''] 85 MBC) ! 1) =
     cutoffScore MBC (cutoffData city_state ! 1)"
proof -
  let ?cd = "cutoffData city_state"
  let ?P = "generateSelectionPayload city_state city_districts [''Chennai''] 85 MBC"
  have cd: "?cd = city_cutoffs" by (simp add: city_state_def)
  have mem: "seat_s2 \<in> set (seatMatrix city_state)" by (simp add: city_state_def)
  have h1: "\<forall>c\<in>set ?cd. \<not> exact_match seat_s2 c"
    unfolding cd by (rule seat_s2_matches(1))
  have h2: "\<exists>c\<in>set ?cd. cs_match seat_s2 c"
    unfolding cd using seat_s2_matches(3) by (auto simp: city_cutoffs_def)
  have ok: "branCode seat_s2 \<in> set (map course_branCode (preferredCourses city_state))"
      "seats_available (seat_field MBC seat_s2)"
      "some_district city_districts (colName seat_s2)"
      "distinct (map seat_id (seatMatrix city_state))"
      "seat_id seat_s2 = ''s2''"
    by code_simp+
  have at0: "\<not> cs_match seat_s2 (?cd ! 0)"
    unfolding cd city_cutoffs_nth by (rule seat_s2_matches(2))
  have at1: "cs_match seat_s2 (?cd ! 1)"
    unfolding cd city_cutoffs_nth by (rule seat_s2_matches(3))
  have at3: "cs_match seat_s2 (?cd ! 3)"
    unfolding cd city_cutoffs_nth by (rule seat_s2_matches(4))
  have score: "cutoffScore MBC (?cd ! 1) = Fin (181 / 2)"
    unfolding cd city_cutoffs_nth by (rule seat_s2_matches(6))
  have nn: "\<not> isNaN (cutoffScore MBC (?cd ! 1))"
    unfolding score by simp
  have cand: "\<lparr>sel_id = seat_id seat_s2, college = colName seat_s2, branch = branName seat_s2,
      cutoff = Fin (181 / 2)\<rparr> = cand_s2"
    "\<lparr>ref_college = colName seat_s2, ref_branch = branName seat_s2,
      ref_cutoff = Fin (181 / 2)\<rparr> = reference_of cand_s2"
    by code_simp+
  from cs_fallback_resolves_first [OF mem h1 h2, of MBC city_districts "[''Chennai'']" 85]
  obtain i where i: "cs_match seat_s2 (?cd ! i)"
    "\<forall>j<i. \<not> cs_match seat_s2 (?cd ! j)"
    "matchingCutoff ?cd seat_s2 = Some (?cd ! i)"
    "branCode seat_s2 \<in> set (map course_branCode (preferredCourses city_state)) \<and>
       seats_available (seat_field MBC seat_s2) \<and>
       \<not> isNaN (cutoffScore MBC (?cd ! i)) \<longrightarrow>
         \<lparr>sel_id = seat_id seat_s2, college = colName seat_s2, branch = branName seat_s2,
          cutoff = cutoffScore MBC (?cd ! i)\<rparr>
           \<in> set (validSelections (seat_loop city_state MBC)) \<and>
         (some_district city_districts (colName seat_s2) \<longrightarrow>
            (seat_id seat_s2,
             \<lparr>ref_college = colName seat_s2, ref_branch = branName seat_s2,
              ref_cutoff = cutoffScore MBC (?cd ! i)\<rparr>)
              \<in> set (zip (selections ?P) (reference ?P)))"
    "distinct (map seat_id (seatMatrix city_state)) \<longrightarrow>
         (\<forall>v\<in>set (validSelections (seat_loop city_state MBC)).
            sel_id v = seat_id seat_s2 \<longrightarrow> cutoff v = cutoffScore MBC (?cd ! i)) \<and>
         (\<forall>j<length (selections ?P).
            selections ?P ! j = seat_id seat_s2 \<longrightarrow>
            ref_cutoff (reference ?P ! j) = cutoffScore MBC (?cd ! i))"
    by blast
  have "\<not> 1 < i"
  proof
    assume "1 < i"
    with i(2) have "\<not> cs_match seat_s2 (?cd ! 1)" by blast
    with at1 show False by contradiction
  qed
  moreover have "i \<noteq> 0"
  proof
    assume "i = 0"
    with i(1) have "cs_match seat_s2 (?cd ! 0)" by simp
    with at0 show False by contradiction
  qed
  ultimately have i1: "i = 1" by simp
  have sel1: "1 < length (selections ?P)" "selections ?P ! 1 = seat_id seat_s2"
    by (simp_all add: city_selections ok)
  from i(4) ok nn have in_v: "cand_s2 \<in> set (validSelections (seat_loop city_state MBC))"
    and in_z: "(''s2'', reference_of cand_s2) \<in> set (zip (selections ?P) (reference ?P))"
    unfolding i1 score cand by simp_all
  from i(5) ok(4) sel1 have rc: "ref_cutoff (reference ?P ! 1) = cutoffScore MBC (?cd ! 1)"
    unfolding i1 by blast
  from mem at0 at1 at3 i(3) in_v ok(3) in_z sel1(2) rc show ?thesis
    unfolding i1 by blast
qed


text \<open>
  C6. A seat whose college code matches no cutoff record contributes nothing to the output:
  the payload is the one computed without the seat, and, seat ids being unique, the seat's
  id is not among the selections.
\<close>

theorem unmatched_college_dropped:
  assumes "seat \<in> set (seatMatrix st)"
    and "\<forall>c\<in>set (cutoffData st). String_int (coc c) \<noteq> colCode seat"
  shows "generateSelectionPayload (st\<lparr>seatMatrix := removeAll seat (seatMatrix st)\<rparr>) d t m cat =
           generateSelectionPayload st d t m cat \<and>
         (distinct (map seat_id (seatMatrix st)) \<longrightarrow>
            seat_id seat \<notin> set (selections (generateSelectionPayload st d t m cat)))"
proof -
  have none: "pushed (preferredCourses st) (cutoffData st) cat seat = None"
    using assms(2) by (rule pushed_no_college)
  have same: "generateSelectionPayload (st\<lparr>seatMatrix := removeAll seat (seatMatrix st)\<rparr>) d t m cat =
      generateSelectionPayload st d t m cat"
    by (rule payload_depends_on_validSelections)
       (simp add: validSelections_seat_loop
         map_filter_removeAll [of "pushed (preferredCourses st) (cutoffData st) cat" seat, OF none])
  have absent: "seat_id seat \<notin> set (selections (generateSelectionPayload st d t m cat))"
    if dist: "distinct (map seat_id (seatMatrix st))"
  proof
    assume "seat_id seat \<in> set (selections (generateSelectionPayload st d t m cat))"
    then obtain v where v: "v \<in> set (finalSorted st d t m cat)" "sel_id v = seat_id seat"
      by (auto simp: selections_eq)
    from finalSorted_origin [OF v(1)] obtain s where s: "s \<in> set (seatMatrix st)"
      "pushed (preferredCourses st) (cutoffData st) cat s = Some v"
      by blast
    from pushed_SomeD [OF s(2)] have "sel_id v = seat_id s" by auto
    with v(2) have "seat_id s = seat_id seat" by simp
    moreover from dist have "inj_on seat_id (set (seatMatrix st))"
      by (simp add: distinct_map)
    ultimately have "s = seat" using s(1) assms(1) by (auto dest: inj_onD)
    with s(2) none show False by simp
  qed
  from same absent show ?thesis by blast
qed


theorem unmatched_college_dropped_witness:
  "seat_t3 \<in> set (seatMatrix city_state) \<and>
   distinct (map seat_id (seatMatrix city_state)) \<and>
   branCode seat_t3 \<in> set (map course_branCode (preferredCourses city_state)) \<and>
   seats_available (seat_field MBC seat_t3) \<and>
   some_district city_districts (colName seat_t3) \<and>
   seat_id seat_t3 \<notin>
     set (selections (generateSelectionPayload city_state city_districts [''Chennai''] 85 MBC)) \<and>
   selections (generateSelectionPayload
       (city_state\<lparr>seatMatrix := removeAll seat_t3 (seatMatrix city_state)\<rparr>)
       city_districts [''Chennai''] 85 MBC) = [''s1'', ''s2'', ''t1'', ''t2'']"
  using unmatched_college_dropped [OF seat_t3_facts(1,2), of city_districts "[''Chennai'']" 85 MBC]
    seat_t3_facts
  by (simp add: city_selections)


text \<open>
  C7. Every entry of the output comes from a seat record whose course code is in the
  allowed-course set, whose seat count at the chosen category is a number greater than
  zero, and whose college name contains one of the \<^verbatim>\<open>districtChoices\<close> as a
  case-insensitive substring.
\<close>

theorem output_passes_filters:
  "\<forall>i<length (selections (generateSelectionPayload st d t m cat)).
     \<exists>seat\<in>set (seatMatrix st).
       selections (generateSelectionPayload st d t m cat) ! i = seat_id seat \<and>
       ref_college (reference (generateSelectionPayload st d t m cat) ! i) = colName seat \<and>
       ref_branch (reference (generateSelectionPayload st d t m cat) ! i) = branName seat \<and>
       branCode seat \<in> course_branCode ` set (preferredCourses st) \<and>
       (\<exists>n. seat_field cat seat = JNumber n \<and> 0 < n) \<and>
       (\<exists>dist\<in>set d. str_includes (toLowerCase (colName seat)) (toLowerCase dist))"
proof (intro allI impI)
  fix i
  assume "i < length (selections (generateSelectionPayload st d t m cat))"
  then have i: "i < length (finalSorted st d t m cat)"
    by (simp add: selections_eq)
  from finalSorted_nth_origin [OF i] obtain seat c where
    s: "seat \<in> set (seatMatrix st)"
      "finalSorted st d t m cat ! i =
         \<lparr>sel_id = seat_id seat, college = colName seat, branch = branName seat,
          cutoff = cutoffScore cat c\<rparr>"
      "branCode seat \<in> set (map course_branCode (preferredCourses st))"
      "seats_available (seat_field cat seat)"
      "some_district d (colName seat)"
    by blast
  have "selections (generateSelectionPayload st d t m cat) ! i = seat_id seat"
    "ref_college (reference (generateSelectionPayload st d t m cat) ! i) = colName seat"
    "ref_branch (reference (generateSelectionPayload st d t m cat) ! i) = branName seat"
    using i s(2) by (simp_all add: selections_eq reference_eq reference_of_def)
  moreover have "\<exists>n. seat_field cat seat = JNumber n \<and> 0 < n"
    using s(4) by (simp add: seats_available_iff)
  moreover have "\<exists>dist\<in>set d. str_includes (toLowerCase (colName seat)) (toLowerCase dist)"
    using s(5) by (simp add: some_district_iff normalize_def)
  ultimately show "\<exists>seat\<in>set (seatMatrix st).
       selections (generateSelectionPayload st d t m cat) ! i = seat_id seat \<and>
       ref_college (reference (generateSelectionPayload st d t m cat) ! i) = colName seat \<and>
       ref_branch (reference (generateSelectionPayload st d t m cat) ! i) = branName seat \<and>
       branCode seat \<in> course_branCode ` set (preferredCourses st) \<and>
       (\<exists>n. seat_field cat seat = JNumber n \<and> 0 < n) \<and>
       (\<exists>dist\<in>set d. str_includes (toLowerCase (colName seat)) (toLowerCase dist))"
    using s(1,3) by auto
qed


theorem output_passes_filters_witness:
  "(2::nat) < length (selections (generateSelectionPayload city_state city_districts [''Chennai''] 85 MBC)) \<and>
   seat_t1 \<in> set (seatMatrix city_state) \<and>
   selections (generateSelectionPayload city_state city_districts [''Chennai''] 85 MBC) ! 2 =
     seat_id seat_t1 \<and>
   ref_college (reference (generateSelectionPayload city_state city_districts [''Chennai''] 85 MBC) ! 2) =
     colName seat_t1 \<and>
   branCode seat_t1 \<in> course_branCode ` set (preferredCourses city_state) \<and>
   seat_field MBC seat_t1 = JNumber 4 \<and> (0::rat) < 4 \<and>
   ''SALEM'' \<in> set city_districts \<and>
   str_includes (toLowerCase (colName seat_t1)) (toLowerCase ''SALEM'')"
  using output_passes_filters [of city_state city_districts "[''Chennai'']" 85 MBC] seat_t1_facts
  by (simp add: city_selections city_reference reference_of_fields cand_fields)






text \<open>
  C9. The returned \<^verbatim>\<open>selections\<close> and \<^verbatim>\<open>reference\<close> have the same length, and at every
  index the reference gives the college name, the course name and the cutoff of the
  candidate whose seat id is the selection at that index.
\<close>

theorem selections_reference_aligned:
  "length (selections (generateSelectionPayload st d t m cat)) =
     length (reference (generateSelectionPayload st d t m cat)) \<and>
   (\<forall>i<length (selections (generateSelectionPayload st d t m cat)).
      \<exists>seat\<in>set (seatMatrix st). \<exists>c.
        matchingCutoff (cutoffData st) seat = Some c \<and>
        selections (generateSelectionPayload st d t m cat) ! i = seat_id seat \<and>
        reference (generateSelectionPayload st d t m cat) ! i =
          \<lparr>ref_college = colName seat, ref_branch = branName seat,
           ref_cutoff = cutoffScore cat c\<rparr>) \<and>
   zip (selections (generateSelectionPayload st d t m cat))
       (reference (generateSelectionPayload st d t m cat)) =
     map (\<lambda>item. (sel_id item, reference_of item)) (finalSorted st d t m cat)"
proof -
  have len: "length (selections (generateSelectionPayload st d t m cat)) =
     length (reference (generateSelectionPayload st d t m cat))"
    by (simp add: selections_eq reference_eq)
  have z: "zip (selections (generateSelectionPayload st d t m cat))
       (reference (generateSelectionPayload st d t m cat)) =
     map (\<lambda>item. (sel_id item, reference_of item)) (finalSorted st d t m cat)"
    by (simp add: selections_eq reference_eq zip_map_map) (simp add: zip_same_conv_map)
  have nth: "\<exists>seat\<in>set (seatMatrix st). \<exists>c.
        matchingCutoff (cutoffData st) seat = Some c \<and>
        selections (generateSelectionPayload st d t m cat) ! i = seat_id seat \<and>
        reference (generateSelectionPayload st d t m cat) ! i =
          \<lparr>ref_college = colName seat, ref_branch = branName seat,
           ref_cutoff = cutoffScore cat c\<rparr>"
    if "i < length (selections (generateSelectionPayload st d t m cat))" for i
  proof -
    from that have i: "i < length (finalSorted st d t m cat)"
      by (simp add: selections_eq)
    from finalSorted_nth_origin [OF i] obtain seat c where
      s: "seat \<in> set (seatMatrix st)" "matchingCutoff (cutoffData st) seat = Some c"
        "finalSorted st d t m cat ! i =
           \<lparr>sel_id = seat_id seat, college = colName seat, branch = branName seat,
            cutoff = cutoffScore cat c\<rparr>"
      by blast
    have "selections (generateSelectionPayload st d t m cat) ! i = seat_id seat"
      "reference (generateSelectionPayload st d t m cat) ! i =
          \<lparr>ref_college = colName seat, ref_branch = branName seat,
           ref_cutoff = cutoffScore cat c\<rparr>"
      using i s(3) by (simp_all add: selections_eq reference_eq reference_of_def)
    with s(1,2) show ?thesis by blast
  qed
  from len nth z show ?thesis by blast
qed


theorem selections_reference_aligned_witness:
  "length (selections (generateSelectionPayload city_state city_districts [''Chennai''] 85 MBC)) = 4 \<and>
   length (reference (generateSelectionPayload city_state city_districts [''Chennai''] 85 MBC)) = 4 \<and>
   seat_t1 \<in> set (seatMatrix city_state) \<and>
   matchingCutoff (cutoffData city_state) seat_t1 = Some cutoff_200_CS \<and>
   selections (generateSelectionPayload city_state city_districts [''Chennai''] 85 MBC) ! 2 =
     seat_id seat_t1 \<and>
   reference (generateSelectionPayload city_state city_districts [''Chennai''] 85 MBC) ! 2 =
     \<lparr>ref_college = colName seat_t1, ref_branch = branName seat_t1,
      ref_cutoff = cutoffScore MBC cutoff_200_CS\<rparr>"
  using selections_reference_aligned [of city_state city_districts "[''Chennai'']" 85 MBC]
    seat_t1_facts
  by (simp add: city_selections city_reference reference_of_def cand_t1_def)


text \<open>
  C10. Claimed: \<^verbatim>\<open>generate_choices\<close> leaves the session state unchanged, and only the fetch
  and load operations replace the seat matrix, the cutoff data, the course list and the
  session id. The second half fails for the session id: \<^verbatim>\<open>login\<close>, which neither fetches
  the seats nor loads a file, assigns it.
\<close>

theorem login_replaces_session_id_counterexample:
  "sessionId (snd (callTool sample_state sample_login)) = Some ''xyz'' \<and>
   sessionId sample_state = Some ''abc'' \<and>
   \<not> is_fetch_or_load sample_login"
  by code_simp

text \<open>
  C10, as the code has it. \<^verbatim>\<open>handleGenerateChoices\<close> returns the state it was given, whether
  it throws or not, and so does the tool call. A tool call that changes the state is a
  login, a fetch or a load: the seat matrix is replaced only by \<^verbatim>\<open>get_available_seats\<close>, the
  cutoff data only by \<^verbatim>\<open>load_cutoff_data\<close>, the course list only by
  \<^verbatim>\<open>load_course_preferences\<close>, and the session id only by \<^verbatim>\<open>login\<close>.
\<close>

theorem generate_choices_frame:
  "snd (handleGenerateChoices st args) = st \<and>
   snd (callTool st (generate_choices a)) = st \<and>
   (\<forall>call. snd (callTool st call) \<noteq> st \<longrightarrow> is_fetch_or_load call \<or> is_login call) \<and>
   (\<forall>call. seatMatrix (snd (callTool st call)) \<noteq> seatMatrix st \<longrightarrow>
      (\<exists>r. call = get_available_seats r)) \<and>
   (\<forall>call. cutoffData (snd (callTool st call)) \<noteq> cutoffData st \<longrightarrow>
      (\<exists>f. call = load_cutoff_data f)) \<and>
   (\<forall>call. preferredCourses (snd (callTool st call)) \<noteq> preferredCourses st \<longrightarrow>
      (\<exists>f. call = load_course_preferences f)) \<and>
   (\<forall>call. sessionId (snd (callTool st call)) \<noteq> sessionId st \<longrightarrow> is_login call)"
proof -
  have g: "snd (callTool st (generate_choices a)) = st"
    by (cases a) (simp_all add: snd_callTool handleGenerateChoices_state)
  show ?thesis
    using g dispatch_seatMatrix [of st] dispatch_cutoffData [of st]
      dispatch_preferredCourses [of st] dispatch_sessionId [of st]
      dispatch_state_changes [of st]
    by (simp add: snd_callTool handleGenerateChoices_state)
qed

theorem generate_choices_frame_witness:
  "snd (handleGenerateChoices city_state empty_districts) = city_state \<and>
   snd (callTool city_state (generate_choices (Some empty_districts))) = city_state \<and>
   snd (callTool city_state (load_cutoff_data (Some []))) \<noteq> city_state \<and>
   is_fetch_or_load (load_cutoff_data (Some [])) \<and>
   sessionId (snd (callTool city_state sample_login)) \<noteq> sessionId city_state \<and>
   is_login sample_login"
proof -
  have l: "cutoffData (snd (callTool city_state (load_cutoff_data (Some [])))) \<noteq>
     cutoffData city_state"
    by code_simp
  then have l': "snd (callTool city_state (load_cutoff_data (Some []))) \<noteq> city_state"
    by auto
  have s: "sessionId (snd (callTool city_state sample_login)) \<noteq> sessionId city_state"
    by code_simp
  show ?thesis
    using l' s generate_choices_frame [of city_state empty_districts "Some empty_districts"]
    by (simp add: sample_login_def)
qed

end
